theory Spec2Isabelle
  imports Main "HOL-Library.Word"
begin

unbundle bit_operations_syntax

section \<open>Registers and register assignment\<close>

text \<open>
  A \<open>Register\<close> is Go's \<open>type Register uint32\<close>.  The high byte holds the kind
  (\<open>kindInvalid = 0\<close> for a frame-local slot, \<open>kindConst\<close>, \<open>kindGlobal\<close>,
  \<open>kindFunction\<close> for a slot of the interpreter-wide stack), the low 24 bits the index.
\<close>

type_synonym Register = "32 word"

definition kindInvalid :: nat where "kindInvalid = 0"
definition kindConst :: nat where "kindConst = 1"
definition kindGlobal :: nat where "kindGlobal = 2"
definition kindFunction :: nat where "kindFunction = 3"

definition Kind :: "Register \<Rightarrow> nat" where
  "Kind i = unat (drop_bit 24 i)"

definition Index :: "Register \<Rightarrow> nat" where
  "Index i = unat (i AND 0xffffff)"

text \<open>
  The SSA values \<open>regIndex\<close> distinguishes by its type switch: a constant (with its
  \<open>IsNil\<close> flag), a global, a function (with the flag \<open>Blocks \<noteq> nil\<close>), and every other
  value (parameters, free variables, instructions).  \<open>SNil\<close> is the nil \<open>ssa.Value\<close>,
  which the compiler passes for an absent operand.
\<close>

datatype ssa_value =
    SNil
  | SConst nat bool
  | SGlobal nat
  | SFunction nat bool
  | SLocal nat

text \<open>What \<open>regIndex\<close> stores in the interpreter-wide stack: the result of
  \<open>constToValue\<close>, \<open>globalToValue\<close> or \<open>makeFunc\<close> for the value.\<close>

datatype static_value = ConstValue nat | GlobalValue nat | FuncValue nat | NoValue

text \<open>The part of \<open>Interp\<close> and of the \<open>Function\<close> being compiled that \<open>regIndex\<close>
  reads and writes.\<close>

record compile_state =
  istack :: "static_value list"
  istackIndex :: "ssa_value \<rightharpoonup> Register"
  funcs :: "nat list"
  stackIndex :: "ssa_value \<rightharpoonup> Register"
  nstack :: nat

text \<open>\<open>loadFunction\<close>: the function cache gets an entry on first reference.\<close>

definition loadFunction :: "nat \<Rightarrow> compile_state \<Rightarrow> compile_state" where
  "loadFunction f s = (if f \<in> set (funcs s) then s else s\<lparr>funcs := funcs s @ [f]\<rparr>)"

text \<open>The type switch of \<open>regIndex\<close>: the kind \<open>vk\<close>, the value \<open>vs\<close>, and the state
  after the switch (only the function case touches it).\<close>

fun classify :: "ssa_value \<Rightarrow> compile_state \<Rightarrow> nat \<times> static_value \<times> compile_state" where
  "classify (SConst c n) s = (kindConst, ConstValue c, s)"
| "classify (SGlobal g) s = (kindGlobal, GlobalValue g, s)"
| "classify (SFunction f hasBlocks) s =
     (if hasBlocks then (kindFunction, FuncValue f, loadFunction f s) else (0, NoValue, s))"
| "classify v s = (0, NoValue, s)"

definition regIndex :: "ssa_value \<Rightarrow> compile_state \<Rightarrow> Register \<times> compile_state" where
  "regIndex v s =
     (case istackIndex s v of
        Some i \<Rightarrow> (i, s)
      | None \<Rightarrow>
         (case stackIndex s v of
            Some i \<Rightarrow> (i, s)
          | None \<Rightarrow>
             (case classify v s of (vk, vs, s1) \<Rightarrow>
                if vk \<noteq> 0 then
                  let reg = (word_of_nat (length (istack s1) OR push_bit 24 vk) :: Register)
                  in (reg, s1\<lparr>istack := istack s1 @ [vs],
                               istackIndex := (istackIndex s1)(v \<mapsto> reg)\<rparr>)
                else
                  let reg = (word_of_nat (nstack s1) :: Register)
                  in (reg, s1\<lparr>nstack := nstack s1 + 1,
                               stackIndex := (stackIndex s1)(v \<mapsto> reg)\<rparr>))))"

text \<open>The compiler calls \<open>regIndex\<close> for one operand after the other; \<open>regIndexes\<close> is
  the state after such a run of calls.\<close>

fun regIndexes :: "ssa_value list \<Rightarrow> compile_state \<Rightarrow> compile_state" where
  "regIndexes [] s = s"
| "regIndexes (w # ws) s = regIndexes ws (snd (regIndex w s))"

text \<open>The register a value is bound to in a state, by the lookup order of \<open>regIndex\<close>.\<close>

definition bound :: "compile_state \<Rightarrow> ssa_value \<Rightarrow> Register option" where
  "bound s v = (case istackIndex s v of Some i \<Rightarrow> Some i | None \<Rightarrow> stackIndex s v)"

section \<open>Values\<close>

text \<open>
  \<open>reflect.Kind\<close>, in the order of the Go declaration.
\<close>

datatype kind =
    Invalid | Bool | Int | Int8 | Int16 | Int32 | Int64
  | Uint | Uint8 | Uint16 | Uint32 | Uint64 | Uintptr
  | Float32 | Float64 | Complex64 | Complex128
  | Array | Chan | Func | Interface | Map | Ptr | Slice | String | Struct | UnsafePointer

text \<open>
  \<open>type value = interface{}\<close>: what a register holds and what \<open>panic\<close> carries.
  \<open>int\<close>, \<open>uint\<close> and \<open>uintptr\<close> are 64 bits wide (the code assumes host and target
  agree).  \<open>VRef k a\<close> is a value of one of the reference kinds (slice, map, func, chan,
  pointer, unsafe pointer) with its address, \<open>None\<close> for the typed nil.  \<open>VNamed n v\<close> is
  a value of the named type \<open>n\<close> whose representation is \<open>v\<close>; the concrete-type switches
  of the interpreter do not match it and go through \<open>reflect\<close>.  \<open>VSprintf f args\<close> is
  the Go string \<open>fmt.Sprintf(f, args...)\<close> for the formats that print a Go type name
  (\<open>%T\<close>), kept unevaluated.  The last group are the panic values of the interpreter:
  \<open>targetPanic\<close>, \<open>exitPanic\<close>, \<open>plainError\<close>, \<open>runtimeError\<close> (its \<open>Error()\<close> prefixes
  \<open>runtime error: \<close>), a \<open>runtime.Error\<close> of the host (\<open>RuntimeError\<close>), a
  \<open>*reflect.ValueError\<close> and any other host value (\<open>VForeign\<close>, by its type name).
  Floating-point values are left out.
\<close>

datatype "value" =
    VNil
  | VBool bool
  | VInt "64 word" | VInt8 "8 word" | VInt16 "16 word" | VInt32 "32 word" | VInt64 "64 word"
  | VUint "64 word" | VUint8 "8 word" | VUint16 "16 word" | VUint32 "32 word"
  | VUint64 "64 word" | VUintptr "64 word"
  | VString string
  | VSprintf string "value list"
  | VRef kind "nat option"
  | VStruct "value list"
  | VArray "value list"
  | VNamed string "value"
  | tuple "value list"
  | targetPanic "value"
  | exitPanic int
  | plainError string
  | runtimeError string
  | RuntimeError string
  | ValueError string
  | VForeign string

text \<open>How a call ends: it returns, it panics with a value, or the host process is
  terminated by \<open>os.Exit\<close>.\<close>

datatype 'a outcome = Returns 'a | Panics "value" | Exits int

section \<open>Frames, deferred calls and recover\<close>

type_synonym Mode = "64 word"

definition DisableRecover :: Mode where "DisableRecover = 1"
definition DisableCustomBuiltin :: Mode where "DisableCustomBuiltin = 2"
definition EnableDumpImports :: Mode where "EnableDumpImports = 4"
definition EnableDumpInstr :: Mode where "EnableDumpInstr = 8"
definition EnableTracing :: Mode where "EnableTracing = 16"
definition EnablePrintAny :: Mode where "EnablePrintAny = 32"

text \<open>A deferred call: the callee (by a name) and its bound arguments.  The \<open>tail\<close>
  pointer of the Go record is the rest of the list the record heads.\<close>

datatype deferred = Deferred (fn: nat) (args: "value list")

text \<open>
  The fields of \<open>frame\<close> that deferring, panicking and recovering use.  \<open>panicking\<close> is
  the pointer \<open>*panicking\<close>: \<open>None\<close> for nil, \<open>Some v\<close> for \<open>&panicking{v}\<close>.  \<open>defers\<close> is
  the chain of deferred records from its head.  The \<open>caller\<close> pointer is not a field
  here: a call stack is the list of its frames from the innermost one, each frame
  followed by its caller, and the nil frame pointer is the empty list.
\<close>

record frame =
  panicking :: "value option"
  defers :: "deferred list"
  pc :: int

text \<open>The type switch of \<open>doRecover\<close> on the panic value.  \<open>runtimeError\<close> has the
  methods of \<open>runtime.Error\<close>, so the second case takes it.  The default case panics.\<close>

fun recovered :: "value \<Rightarrow> value + value" where
  "recovered (targetPanic v) = Inr v"
| "recovered (RuntimeError e) = Inr (RuntimeError e)"
| "recovered (runtimeError e) = Inr (runtimeError e)"
| "recovered (VString s) = Inr (VString s)"
| "recovered (VSprintf f a) = Inr (VSprintf f a)"
| "recovered (plainError e) = Inr (plainError e)"
| "recovered (ValueError e) = Inr (ValueError e)"
| "recovered p = Inl (VSprintf ''unexpected panic type %T in target call to recover()'' [p])"

text \<open>
  \<open>doRecover\<close> on a call stack: the head is \<open>caller\<close>, the next frame \<open>caller.caller\<close>.
  The result is the value returned (\<open>Inr\<close>) or the Go panic raised (\<open>Inl\<close>), with the
  stack after the call.  \<open>caller.interp.mode\<close> is read first, so a nil \<open>caller\<close> is a
  nil dereference.
\<close>

fun doRecover :: "Mode \<Rightarrow> frame list \<Rightarrow> (value + value) \<times> frame list" where
  "doRecover m [] =
     (Inl (RuntimeError ''invalid memory address or nil pointer dereference''), [])"
| "doRecover m [c] = (Inr VNil, [c])"
| "doRecover m (c # cc # rest) =
     (if m AND DisableRecover = 0 \<and> panicking c = None \<and> panicking cc \<noteq> None
      then (recovered (the (panicking cc)), c # cc\<lparr>panicking := None\<rparr> # rest)
      else (Inr VNil, c # cc # rest))"

text \<open>
  What \<open>callDiscardsResult(fr, d.fn, d.args, d.ssaArgs)\<close> does, as far as \<open>fr\<close> can
  tell: the callee gets \<open>fr.panicking\<close> (it reaches it through \<open>recover()\<close>), leaves a
  new \<open>fr.panicking\<close>, and returns or panics.
\<close>

type_synonym callee = "nat \<Rightarrow> value list \<Rightarrow> value option \<Rightarrow> value option \<times> unit outcome"

text \<open>
  \<open>runDefer\<close>: the deferred closure sets \<open>fr.panicking = &panicking{recover()}\<close> when
  the call did not end normally; \<open>recover()\<close> is the panic value.  A callee that
  terminates the process ends the run (\<open>Inl\<close>).
\<close>

definition runDefer :: "callee \<Rightarrow> deferred \<Rightarrow> frame \<Rightarrow> int + frame" where
  "runDefer call d fr =
     (case call (fn d) (args d) (panicking fr) of
        (pk, Returns u) \<Rightarrow> Inr (fr\<lparr>panicking := pk\<rparr>)
      | (pk, Panics p) \<Rightarrow> Inr (fr\<lparr>panicking := Some p\<rparr>)
      | (pk, Exits n) \<Rightarrow> Inl n)"

text \<open>The loop of \<open>runDefers\<close> over the chain, with the deferred calls it ran, in the
  order it ran them.\<close>

fun runDefers_loop :: "callee \<Rightarrow> deferred list \<Rightarrow> frame \<Rightarrow> deferred list \<times> (int + frame)" where
  "runDefers_loop call [] fr = ([], Inr fr)"
| "runDefers_loop call (d # tail) fr =
     (case runDefer call d fr of
        Inl n \<Rightarrow> ([d], Inl n)
      | Inr fr1 \<Rightarrow>
         (case runDefers_loop call tail fr1 of (ds, r) \<Rightarrow> (d # ds, r)))"

text \<open>
  \<open>runDefers\<close>: the calls run, and how it ends: with the frame, returning when
  \<open>fr.panicking\<close> is nil at the end and panicking with its value otherwise.  (The
  goroutine bookkeeping around the loop, \<open>deferCount\<close>, \<open>deferMap\<close> and \<open>deferid\<close>, does
  not touch the chain or the panic state and is not modelled.)
\<close>

definition runDefers :: "callee \<Rightarrow> frame \<Rightarrow> deferred list \<times> frame outcome" where
  "runDefers call fr =
     (case runDefers_loop call (defers fr) fr of
        (ds, Inl n) \<Rightarrow> (ds, Exits n)
      | (ds, Inr fr1) \<Rightarrow>
         (case panicking fr1 of
            None \<Rightarrow> (ds, Returns fr1)
          | Some v \<Rightarrow> (ds, Panics v)))"



text \<open>A deferred function whose body is a call of \<open>recover()\<close>, seen from the frame
  that runs it: the callee's own frame is fresh (not panicking), its caller is the
  frame with the given \<open>panicking\<close>.\<close>

definition recover_callee :: "Mode \<Rightarrow> callee" where
  "recover_callee m f a pk =
     (case doRecover m [\<lparr>panicking = None, defers = [], pc = 0\<rparr>,
                        \<lparr>panicking = pk, defers = [], pc = 0\<rparr>] of
        (Inr v, st) \<Rightarrow> (panicking (st ! 1), Returns ())
      | (Inl e, st) \<Rightarrow> (panicking (st ! 1), Panics e))"

section \<open>The top-level runner\<close>

text \<open>
  The \<open>error\<close> results of \<open>Run\<close> and \<open>RunFunc\<close>: the panic value itself where it is an
  error (\<open>err = p\<close>), \<open>plainError(p)\<close> for a string \<open>p\<close>, and \<open>fmt.Errorf(format, args)\<close>.
\<close>

datatype error = Err "value" | ErrPlain "value" | Errorf string "value list"

text \<open>The fields of \<open>Interp\<close> the runner uses.\<close>

record interp =
  mode :: Mode
  exited :: bool

text \<open>The replacement of \<open>os.Exit\<close> installed by \<open>findExternFunc\<close>.\<close>

definition os_Exit :: "interp \<Rightarrow> int \<Rightarrow> 'a outcome" where
  "os_Exit i code = (if exited i then Exits code else Panics (exitPanic code))"

text \<open>The type switch on \<open>recover()\<close> in the deferred closure of \<open>Run\<close>, on the named
  results \<open>exitCode\<close> and \<open>err\<close>.\<close>

fun Run_recover :: "value \<Rightarrow> int \<Rightarrow> error option \<Rightarrow> int \<times> error option" where
  "Run_recover VNil exitCode err = (exitCode, err)"
| "Run_recover (exitPanic n) exitCode err = (n, err)"
| "Run_recover (targetPanic v) exitCode err = (exitCode, Some (Err (targetPanic v)))"
| "Run_recover (RuntimeError e) exitCode err = (exitCode, Some (Err (RuntimeError e)))"
| "Run_recover (runtimeError e) exitCode err = (exitCode, Some (Err (runtimeError e)))"
| "Run_recover (VString s) exitCode err = (exitCode, Some (ErrPlain (VString s)))"
| "Run_recover (VSprintf f a) exitCode err = (exitCode, Some (ErrPlain (VSprintf f a)))"
| "Run_recover (plainError e) exitCode err = (exitCode, Some (Err (plainError e)))"
| "Run_recover p exitCode err =
     (exitCode, Some (Errorf ''unexpected type: %T: %v'' [p, p]))"

text \<open>
  \<open>Run\<close>.  \<open>mainpkg\<close> is the lookup \<open>i.mainpkg.Func\<close>; \<open>call f args i\<close> is how \<open>i.call(nil, f, args, nil)\<close>
  ends in the interpreter state \<open>i\<close>.  The body leaves the named results
  \<open>(exitCode, err)\<close>, or a panic with the results still \<open>(2, nil)\<close>; then the deferred
  closure runs.  Where the closure returns without calling \<open>recover()\<close> a panic goes on
  to the caller of \<open>Run\<close>.
\<close>

definition Run ::
  "(string \<rightharpoonup> 'f) \<Rightarrow> ('f \<Rightarrow> value list \<Rightarrow> interp \<Rightarrow> value outcome) \<Rightarrow> interp \<Rightarrow> string
     \<Rightarrow> (int \<times> error option) outcome \<times> interp" where
  "Run mainpkg call i entry =
     (let i1 = i\<lparr>exited := False\<rparr>;
          body = (case mainpkg entry of
                    Some mainFn \<Rightarrow>
                      (case call mainFn [] i1 of
                         Returns r \<Rightarrow> Returns (0, None)
                       | Panics p \<Rightarrow> Panics p
                       | Exits n \<Rightarrow> Exits n)
                  | None \<Rightarrow> Returns (1, Some (Errorf ''no function %v'' [VString entry])))
      in case body of
           Exits n \<Rightarrow> (Exits n, i1)
         | _ \<Rightarrow>
            if exited i1 then (body, i1)
            else
              let i2 = i1\<lparr>exited := True\<rparr> in
              if mode i2 AND DisableRecover \<noteq> 0 then (body, i2)
              else (case body of
                      Panics p \<Rightarrow> (Returns (Run_recover p 2 None), i2)
                    | _ \<Rightarrow> (body, i2)))"

text \<open>The type switch in the deferred closure of \<open>RunFunc\<close>, on the named result \<open>err\<close>.\<close>

fun RunFunc_recover :: "value \<Rightarrow> error option \<Rightarrow> error option" where
  "RunFunc_recover VNil err = err"
| "RunFunc_recover (exitPanic n) err = err"
| "RunFunc_recover (targetPanic v) err = Some (Err (targetPanic v))"
| "RunFunc_recover (RuntimeError e) err = Some (Err (RuntimeError e))"
| "RunFunc_recover (runtimeError e) err = Some (Err (runtimeError e))"
| "RunFunc_recover (VString s) err = Some (ErrPlain (VString s))"
| "RunFunc_recover (VSprintf f a) err = Some (ErrPlain (VSprintf f a))"
| "RunFunc_recover (plainError e) err = Some (Err (plainError e))"
| "RunFunc_recover p err = Some (Errorf ''unexpected type: %T: %v'' [p, p])"

definition RunFunc ::
  "(string \<rightharpoonup> 'f) \<Rightarrow> ('f \<Rightarrow> value list \<Rightarrow> interp \<Rightarrow> value outcome) \<Rightarrow> interp \<Rightarrow> string
     \<Rightarrow> value list \<Rightarrow> (value \<times> error option) outcome" where
  "RunFunc mainpkg call i name argv =
     (let body = (case mainpkg name of
                    Some f \<Rightarrow>
                      (case call f argv i of
                         Returns r \<Rightarrow> Returns (r, None)
                       | Panics p \<Rightarrow> Panics p
                       | Exits n \<Rightarrow> Exits n)
                  | None \<Rightarrow> Returns (VNil, Some (Errorf ''no function %v'' [VString name])))
      in if mode i AND DisableRecover \<noteq> 0 then body
         else (case body of
                 Panics p \<Rightarrow> Returns (VNil, RunFunc_recover p None)
               | _ \<Rightarrow> body))"

text \<open>Two pieces of an example program: a main package whose only function is
  \<open>main\<close>, and a call that ends in \<open>os.Exit(n)\<close>.\<close>

definition main_only :: "string \<rightharpoonup> unit" where
  "main_only = [''main'' \<mapsto> ()]"

definition calls_os_Exit :: "int \<Rightarrow> unit \<Rightarrow> value list \<Rightarrow> interp \<Rightarrow> value outcome" where
  "calls_os_Exit n f a i = os_Exit i n"

section \<open>Comparison with nil\<close>

text \<open>
  A \<open>reflect.Value\<close> as \<open>opEQL\<close> and \<open>IsNil\<close> see it: its kind, the answer of its
  \<open>IsNil()\<close> method (read only for the kinds that have one) and the data behind it.
\<close>

datatype 'a rvalue = RValue (rkind: kind) (rnil: bool) (rdata: 'a)

text \<open>An \<open>ssa.BinOp\<close>: the two operands.\<close>

record BinOp =
  X :: ssa_value
  Y :: ssa_value

fun IsConstNil :: "ssa_value \<Rightarrow> bool" where
  "IsConstNil (SConst c isNil) = isNil"
| "IsConstNil v = False"

definition IsNil :: "'a rvalue \<Rightarrow> bool" where
  "IsNil v =
     (case rkind v of
        Invalid \<Rightarrow> True
      | Slice \<Rightarrow> rnil v | Map \<Rightarrow> rnil v | Func \<Rightarrow> rnil v
      | Chan \<Rightarrow> rnil v | Ptr \<Rightarrow> rnil v | UnsafePointer \<Rightarrow> rnil v | Interface \<Rightarrow> rnil v
      | _ \<Rightarrow> False)"

text \<open>
  \<open>opEQL\<close> on \<open>vx = reflect.ValueOf(x)\<close> and \<open>vy = reflect.ValueOf(y)\<close>.  \<open>equalValue\<close>
  is the structural comparison the last line calls; the comparison with a nil constant
  does not reach it.
\<close>

definition opEQL ::
  "('a rvalue \<Rightarrow> 'a rvalue \<Rightarrow> bool) \<Rightarrow> BinOp \<Rightarrow> 'a rvalue \<Rightarrow> 'a rvalue \<Rightarrow> bool" where
  "opEQL equalValue instr vx vy =
     (if rkind vx \<noteq> rkind vy then False
      else if IsConstNil (X instr) then IsNil vy
      else if IsConstNil (Y instr) then IsNil vx
      else equalValue vx vy)"

text \<open>A comparison of the data, for the examples: it stands for \<open>equalValue\<close> on
  values that are equal when their data are.\<close>

definition same_data :: "nat rvalue \<Rightarrow> nat rvalue \<Rightarrow> bool" where
  "same_data a b = (rdata a = rdata b)"

section \<open>Shifts\<close>

text \<open>\<open>v.Int()\<close> and \<open>v.Uint()\<close> of \<open>reflect\<close>: the value widened to 64 bits, for the
  signed and for the unsigned kinds.\<close>

fun Int_of :: "value \<Rightarrow> 64 word option" where
  "Int_of (VInt a) = Some a"
| "Int_of (VInt8 a) = Some (scast a)"
| "Int_of (VInt16 a) = Some (scast a)"
| "Int_of (VInt32 a) = Some (scast a)"
| "Int_of (VInt64 a) = Some a"
| "Int_of v = None"

fun Uint_of :: "value \<Rightarrow> 64 word option" where
  "Uint_of (VUint a) = Some a"
| "Uint_of (VUint8 a) = Some (ucast a)"
| "Uint_of (VUint16 a) = Some (ucast a)"
| "Uint_of (VUint32 a) = Some (ucast a)"
| "Uint_of (VUint64 a) = Some a"
| "Uint_of (VUintptr a) = Some a"
| "Uint_of v = None"

text \<open>\<open>r.SetInt\<close> and \<open>r.SetUint\<close> on a fresh value of the type of \<open>v\<close>: the 64-bit
  result is cut to the width of the kind.\<close>

fun SetInt :: "value \<Rightarrow> 64 word \<Rightarrow> value" where
  "SetInt (VInt a) x = VInt x"
| "SetInt (VInt8 a) x = VInt8 (ucast x)"
| "SetInt (VInt16 a) x = VInt16 (ucast x)"
| "SetInt (VInt32 a) x = VInt32 (ucast x)"
| "SetInt (VInt64 a) x = VInt64 x"
| "SetInt v x = v"

fun SetUint :: "value \<Rightarrow> 64 word \<Rightarrow> value" where
  "SetUint (VUint a) x = VUint x"
| "SetUint (VUint8 a) x = VUint8 (ucast x)"
| "SetUint (VUint16 a) x = VUint16 (ucast x)"
| "SetUint (VUint32 a) x = VUint32 (ucast x)"
| "SetUint (VUint64 a) x = VUint64 x"
| "SetUint (VUintptr a) x = VUintptr x"
| "SetUint v x = v"

definition negative_shift :: "value" where
  "negative_shift = runtimeError ''negative shift amount''"

text \<open>
  \<open>asUint64\<close>: the shift count as a \<open>uint64\<close> (\<open>Inr\<close>) or the panic (\<open>Inl\<close>).  The
  concrete-type switch takes the eleven integer types; a signed case with a negative
  value leaves the switch and reaches the final \<open>panic\<close>.  The default case asks
  \<open>reflect\<close> for the kind: values of named integer types (\<open>exitPanic\<close> is one) go
  through \<open>v.Uint()\<close> and \<open>v.Int()\<close>, everything else cannot be converted.
\<close>

fun asUint64 :: "value \<Rightarrow> value + 64 word" where
  "asUint64 (VInt x) = (if 0 \<le> sint x then Inr x else Inl negative_shift)"
| "asUint64 (VInt8 x) = (if 0 \<le> sint x then Inr (scast x) else Inl negative_shift)"
| "asUint64 (VInt16 x) = (if 0 \<le> sint x then Inr (scast x) else Inl negative_shift)"
| "asUint64 (VInt32 x) = (if 0 \<le> sint x then Inr (scast x) else Inl negative_shift)"
| "asUint64 (VInt64 x) = (if 0 \<le> sint x then Inr x else Inl negative_shift)"
| "asUint64 (VUint x) = Inr x"
| "asUint64 (VUint8 x) = Inr (ucast x)"
| "asUint64 (VUint16 x) = Inr (ucast x)"
| "asUint64 (VUint32 x) = Inr (ucast x)"
| "asUint64 (VUint64 x) = Inr x"
| "asUint64 (VUintptr x) = Inr x"
| "asUint64 (VNamed n v) =
     (case Uint_of v of
        Some u \<Rightarrow> Inr u
      | None \<Rightarrow>
         (case Int_of v of
            Some x \<Rightarrow> (if 0 \<le> sint x then Inr x else Inl negative_shift)
          | None \<Rightarrow> Inl (VSprintf ''cannot convert %T to uint64'' [VNamed n v])))"
| "asUint64 (exitPanic n) =
     (if 0 \<le> sint (word_of_int n :: 64 word) then Inr (word_of_int n) else Inl negative_shift)"
| "asUint64 x = Inl (VSprintf ''cannot convert %T to uint64'' [x])"

text \<open>
  \<open>opSHL\<close> and \<open>opSHR\<close>: the count is converted first, then the switch on the type of
  \<open>x\<close>.  Go's shifts give 0 (or the sign, for \<open>>>\<close> on a signed operand) once the count
  reaches the width, as \<open>push_bit\<close>, \<open>drop_bit\<close> and \<open>signed_drop_bit\<close> do.
\<close>

fun shl_value :: "value \<Rightarrow> 64 word \<Rightarrow> value + value" where
  "shl_value (VInt a) y = Inr (VInt (push_bit (unat y) a))"
| "shl_value (VInt8 a) y = Inr (VInt8 (push_bit (unat y) a))"
| "shl_value (VInt16 a) y = Inr (VInt16 (push_bit (unat y) a))"
| "shl_value (VInt32 a) y = Inr (VInt32 (push_bit (unat y) a))"
| "shl_value (VInt64 a) y = Inr (VInt64 (push_bit (unat y) a))"
| "shl_value (VUint a) y = Inr (VUint (push_bit (unat y) a))"
| "shl_value (VUint8 a) y = Inr (VUint8 (push_bit (unat y) a))"
| "shl_value (VUint16 a) y = Inr (VUint16 (push_bit (unat y) a))"
| "shl_value (VUint32 a) y = Inr (VUint32 (push_bit (unat y) a))"
| "shl_value (VUint64 a) y = Inr (VUint64 (push_bit (unat y) a))"
| "shl_value (VUintptr a) y = Inr (VUintptr (push_bit (unat y) a))"
| "shl_value (VNamed n v) y =
     (case Int_of v of
        Some a \<Rightarrow> Inr (VNamed n (SetInt v (push_bit (unat y) a)))
      | None \<Rightarrow>
         (case Uint_of v of
            Some a \<Rightarrow> Inr (VNamed n (SetUint v (push_bit (unat y) a)))
          | None \<Rightarrow> Inl (VSprintf ''invalid binary op: %T << %T'' [VNamed n v, VUint64 y])))"
| "shl_value (exitPanic n) y =
     Inr (exitPanic (sint (push_bit (unat y) (word_of_int n :: 64 word))))"
| "shl_value x y = Inl (VSprintf ''invalid binary op: %T << %T'' [x, VUint64 y])"

definition opSHL :: "value \<Rightarrow> value \<Rightarrow> value + value" where
  "opSHL x y' = (case asUint64 y' of Inl e \<Rightarrow> Inl e | Inr y \<Rightarrow> shl_value x y)"

fun shr_value :: "value \<Rightarrow> 64 word \<Rightarrow> value + value" where
  "shr_value (VInt a) y = Inr (VInt (signed_drop_bit (unat y) a))"
| "shr_value (VInt8 a) y = Inr (VInt8 (signed_drop_bit (unat y) a))"
| "shr_value (VInt16 a) y = Inr (VInt16 (signed_drop_bit (unat y) a))"
| "shr_value (VInt32 a) y = Inr (VInt32 (signed_drop_bit (unat y) a))"
| "shr_value (VInt64 a) y = Inr (VInt64 (signed_drop_bit (unat y) a))"
| "shr_value (VUint a) y = Inr (VUint (drop_bit (unat y) a))"
| "shr_value (VUint8 a) y = Inr (VUint8 (drop_bit (unat y) a))"
| "shr_value (VUint16 a) y = Inr (VUint16 (drop_bit (unat y) a))"
| "shr_value (VUint32 a) y = Inr (VUint32 (drop_bit (unat y) a))"
| "shr_value (VUint64 a) y = Inr (VUint64 (drop_bit (unat y) a))"
| "shr_value (VUintptr a) y = Inr (VUintptr (drop_bit (unat y) a))"
| "shr_value (VNamed n v) y =
     (case Int_of v of
        Some a \<Rightarrow> Inr (VNamed n (SetInt v (signed_drop_bit (unat y) a)))
      | None \<Rightarrow>
         (case Uint_of v of
            Some a \<Rightarrow> Inr (VNamed n (SetUint v (drop_bit (unat y) a)))
          | None \<Rightarrow> Inl (VSprintf ''invalid binary op: %T >> %T'' [VNamed n v, VUint64 y])))"
| "shr_value (exitPanic n) y =
     Inr (exitPanic (sint (signed_drop_bit (unat y) (word_of_int n :: 64 word))))"
| "shr_value x y = Inl (VSprintf ''invalid binary op: %T >> %T'' [x, VUint64 y])"

definition opSHR :: "value \<Rightarrow> value \<Rightarrow> value + value" where
  "opSHR x y' = (case asUint64 y' of Inl e \<Rightarrow> Inl e | Inr y \<Rightarrow> shr_value x y)"

text \<open>
  The reading of a value as a mathematical integer, for the statement about shift
  counts: a value of a signed integer type (predeclared or named), and a value of an
  unsigned one.
\<close>

fun signed_value :: "value \<Rightarrow> int option" where
  "signed_value (VInt a) = Some (sint a)"
| "signed_value (VInt8 a) = Some (sint a)"
| "signed_value (VInt16 a) = Some (sint a)"
| "signed_value (VInt32 a) = Some (sint a)"
| "signed_value (VInt64 a) = Some (sint a)"
| "signed_value (VNamed n (VInt a)) = Some (sint a)"
| "signed_value (VNamed n (VInt8 a)) = Some (sint a)"
| "signed_value (VNamed n (VInt16 a)) = Some (sint a)"
| "signed_value (VNamed n (VInt32 a)) = Some (sint a)"
| "signed_value (VNamed n (VInt64 a)) = Some (sint a)"
| "signed_value v = None"

fun unsigned_value :: "value \<Rightarrow> int option" where
  "unsigned_value (VUint a) = Some (uint a)"
| "unsigned_value (VUint8 a) = Some (uint a)"
| "unsigned_value (VUint16 a) = Some (uint a)"
| "unsigned_value (VUint32 a) = Some (uint a)"
| "unsigned_value (VUint64 a) = Some (uint a)"
| "unsigned_value (VUintptr a) = Some (uint a)"
| "unsigned_value (VNamed n (VUint a)) = Some (uint a)"
| "unsigned_value (VNamed n (VUint8 a)) = Some (uint a)"
| "unsigned_value (VNamed n (VUint16 a)) = Some (uint a)"
| "unsigned_value (VNamed n (VUint32 a)) = Some (uint a)"
| "unsigned_value (VNamed n (VUint64 a)) = Some (uint a)"
| "unsigned_value (VNamed n (VUintptr a)) = Some (uint a)"
| "unsigned_value v = None"

section \<open>Types and zero values\<close>

text \<open>
  The types a map or a channel can have as its element type, as far as the zero value
  needs them: the predeclared types, the reference types (by their kind), the interface
  types, structs, arrays and named types.  \<open>zero_value t\<close> is
  \<open>reflect.New(t).Elem().Interface()\<close>; for an interface type that is the Go nil.
\<close>

datatype gotype =
    TBool
  | TInt | TInt8 | TInt16 | TInt32 | TInt64
  | TUint | TUint8 | TUint16 | TUint32 | TUint64 | TUintptr
  | TString
  | TRef kind
  | TInterface
  | TStruct "gotype list"
  | TArray nat gotype
  | TNamed string gotype

fun zero_value :: "gotype \<Rightarrow> value" where
  "zero_value TBool = VBool False"
| "zero_value TInt = VInt 0"
| "zero_value TInt8 = VInt8 0"
| "zero_value TInt16 = VInt16 0"
| "zero_value TInt32 = VInt32 0"
| "zero_value TInt64 = VInt64 0"
| "zero_value TUint = VUint 0"
| "zero_value TUint8 = VUint8 0"
| "zero_value TUint16 = VUint16 0"
| "zero_value TUint32 = VUint32 0"
| "zero_value TUint64 = VUint64 0"
| "zero_value TUintptr = VUintptr 0"
| "zero_value TString = VString []"
| "zero_value (TRef k) = VRef k None"
| "zero_value TInterface = VNil"
| "zero_value (TStruct ts) = VStruct (map zero_value ts)"
| "zero_value (TArray n t) = VArray (replicate n (zero_value t))"
| "zero_value (TNamed n TInterface) = VNil"
| "zero_value (TNamed n t) = VNamed n (zero_value t)"

section \<open>Map lookup\<close>




section \<open>Select\<close>

datatype ChanDir = SendRecv | SendOnly | RecvOnly

datatype SelectDir = SelectSend | SelectRecv | SelectDefault

text \<open>An \<open>ssa.SelectState\<close> with what the step reads for it: the direction, the
  channel in its register, the element type of the channel's type, and the content of
  the register of the value to send where the state has one.\<close>

record SelectState =
  StDir :: ChanDir
  StChan :: "value"
  StElem :: gotype
  StSend :: "value option"

text \<open>A \<open>reflect.SelectCase\<close>; the channel and the value to send are \<open>None\<close> where the
  Go field is the zero \<open>reflect.Value\<close>.\<close>

datatype SelectCase = SelectCase SelectDir "value option" "value option"

definition state_case :: "SelectState \<Rightarrow> SelectCase" where
  "state_case st =
     SelectCase (if StDir st = RecvOnly then SelectRecv else SelectSend)
       (Some (StChan st))
       (case StSend st of
          None \<Rightarrow> None
        | Some v \<Rightarrow> Some (if v = VNil then zero_value (StElem st) else v))"

definition Select_cases :: "bool \<Rightarrow> SelectState list \<Rightarrow> SelectCase list" where
  "Select_cases Blocking States =
     (if \<not> Blocking then [SelectCase SelectDefault None None] else []) @ map state_case States"

text \<open>The loop over \<open>instr.States\<close> that appends one value for every receive state;
  \<open>n\<close> is the index of the state, \<open>r\<close> the tuple so far.\<close>

fun Select_results ::
  "int \<Rightarrow> bool \<Rightarrow> value \<Rightarrow> nat \<Rightarrow> SelectState list \<Rightarrow> value list \<Rightarrow> value list" where
  "Select_results chosen recvOk recv n [] r = r"
| "Select_results chosen recvOk recv n (st # sts) r =
     Select_results chosen recvOk recv (Suc n) sts
       (if StDir st = RecvOnly
        then r @ [if int n = chosen \<and> recvOk then recv else zero_value (StElem st)]
        else r)"

text \<open>
  The step of an \<open>ssa.Select\<close>.  \<open>native\<close> is \<open>reflect.Select\<close>: for a list of cases the
  index chosen, the value received and \<open>recvOk\<close>, or \<open>None\<close> where it blocks for ever.
  The result is the tuple stored in the register.
\<close>

definition Select ::
  "(SelectCase list \<Rightarrow> (int \<times> value \<times> bool) option) \<Rightarrow> bool \<Rightarrow> SelectState list
     \<Rightarrow> value option" where
  "Select native Blocking States =
     (case native (Select_cases Blocking States) of
        None \<Rightarrow> None
      | Some (chosen0, recv, recvOk) \<Rightarrow>
          let chosen = (if \<not> Blocking then chosen0 - 1 else chosen0)
          in Some (tuple (Select_results chosen recvOk recv 0 States
                            [VInt (word_of_int chosen), VBool recvOk])))"

section \<open>Slicing\<close>

text \<open>The decimal text of an \<open>int\<close>, as \<open>%v\<close> prints it.\<close>

definition digit :: "nat \<Rightarrow> char" where
  "digit d = ''0123456789'' ! d"

function showNat :: "nat \<Rightarrow> string" where
  "showNat n = (if n < 10 then [digit n] else showNat (n div 10) @ [digit (n mod 10)])"
  by pat_completeness auto
termination
  by (relation "measure id") auto

declare showNat.simps [simp del]

definition showInt :: "int \<Rightarrow> string" where
  "showInt i = (if i < 0 then CHR ''-'' # showNat (nat (- i)) else showNat (nat i))"

text \<open>
  The operand of a slice expression as \<open>slice\<close> sees it in \<open>v\<close>, after \<open>v.Elem()\<close> for a
  pointer: a string; a slice, with the address of its first element (counted in
  elements), its length and its capacity; the addressable array behind a pointer, with
  its address and its length; and anything else (a nil array pointer gives the invalid
  value), with the register's content.  The elements themselves are not part of the
  operand: \<open>slice\<close> works on the header.
\<close>

datatype operand =
    OString string
  | OSlice int int int
  | OArray int int
  | OOther "value"

fun Len :: "operand \<Rightarrow> int" where
  "Len (OString s) = int (length s)"
| "Len (OSlice d l c) = l"
| "Len (OArray a n) = n"
| "Len (OOther x) = 0"

fun Cap :: "operand \<Rightarrow> int" where
  "Cap (OString s) = int (length s)"
| "Cap (OSlice d l c) = c"
| "Cap (OArray a n) = n"
| "Cap (OOther x) = 0"

fun isSlice :: "operand \<Rightarrow> bool" where
  "isSlice (OSlice d l c) = True"
| "isSlice v = False"

text \<open>
  \<open>reflect.Value.Slice\<close> on a string and \<open>reflect.Value.Slice3\<close> on a slice or an
  addressable array, by their documentation: they panic if the indexes are out of
  bounds, and give the substring, or the slice header of length \<open>j - i\<close> and capacity
  \<open>k - i\<close> that starts at element \<open>i\<close> (the pointer is not advanced when the capacity
  left is 0).
\<close>

definition reflect_Slice :: "string \<Rightarrow> int \<Rightarrow> int \<Rightarrow> value + operand" where
  "reflect_Slice s i j =
     (if i < 0 \<or> j < i \<or> int (length s) < j
      then Inl (VString ''reflect.Value.Slice: string slice index out of bounds'')
      else Inr (OString (take (nat (j - i)) (drop (nat i) s))))"

definition reflect_Slice3 :: "int \<Rightarrow> int \<Rightarrow> int \<Rightarrow> int \<Rightarrow> int \<Rightarrow> value + operand" where
  "reflect_Slice3 base cp i j k =
     (if i < 0 \<or> j < i \<or> k < j \<or> cp < k
      then Inl (VString ''reflect.Value.Slice3: slice index out of bounds'')
      else Inr (OSlice (if 0 < k - i then base + i else base) (j - i) (k - i)))"

text \<open>The bounds checks of \<open>slice\<close>: the runtime error it panics with, if any.\<close>

definition slice_check ::
  "bool \<Rightarrow> bool \<Rightarrow> bool \<Rightarrow> int \<Rightarrow> int \<Rightarrow> int \<Rightarrow> int \<Rightarrow> value option" where
  "slice_check kindSlice makesliceCheck slice3 lo hi mx cp =
     (if makesliceCheck then
        (if hi < 0 then Some (runtimeError ''makeslice: len out of range'')
         else if hi > mx then Some (runtimeError ''makeslice: cap out of range'')
         else None)
      else if slice3 then
        (if mx < 0 then
           Some (runtimeError (''slice bounds out of range [::'' @ showInt mx @ '']''))
         else if mx > cp then
           (if kindSlice then
              Some (runtimeError (''slice bounds out of range [::'' @ showInt mx @
                       ''] with capacity '' @ showInt cp))
            else
              Some (runtimeError (''slice bounds out of range [::'' @ showInt mx @
                       ''] with length '' @ showInt cp)))
         else if hi < 0 then
           Some (runtimeError (''slice bounds out of range [:'' @ showInt hi @ '':]''))
         else if hi > mx then
           Some (runtimeError (''slice bounds out of range [:'' @ showInt hi @ '':'' @
                    showInt mx @ '']''))
         else if lo < 0 then
           Some (runtimeError (''slice bounds out of range ['' @ showInt lo @ ''::]''))
         else if lo > hi then
           Some (runtimeError (''slice bounds out of range ['' @ showInt lo @ '':'' @
                    showInt hi @ '':]''))
         else None)
      else
        (if hi < 0 then
           Some (runtimeError (''slice bounds out of range [:'' @ showInt hi @ '']''))
         else if hi > cp then
           (if kindSlice then
              Some (runtimeError (''slice bounds out of range [:'' @ showInt hi @
                       ''] with capacity '' @ showInt cp))
            else
              Some (runtimeError (''slice bounds out of range [:'' @ showInt hi @
                       ''] with length '' @ showInt cp)))
         else if lo < 0 then
           Some (runtimeError (''slice bounds out of range ['' @ showInt lo @ '':]''))
         else if lo > hi then
           Some (runtimeError (''slice bounds out of range ['' @ showInt lo @ '':'' @
                    showInt hi @ '']''))
         else None))"

text \<open>The final switch of \<open>slice\<close> on the kind.\<close>

fun slice_result :: "operand \<Rightarrow> int \<Rightarrow> int \<Rightarrow> int \<Rightarrow> value + operand" where
  "slice_result (OString s) lo hi mx =
     (if lo = hi then reflect_Slice s 0 0 else reflect_Slice s lo hi)"
| "slice_result (OSlice d l c) lo hi mx = reflect_Slice3 d c lo hi mx"
| "slice_result (OArray a n) lo hi mx = reflect_Slice3 a n lo hi mx"
| "slice_result (OOther x) lo hi mx = Inl (VSprintf ''slice: unexpected X type: %T'' [x])"

text \<open>
  \<open>slice\<close>: \<open>Low\<close>, \<open>High\<close> and \<open>Max'\<close> are the operands of the instruction, \<open>None\<close>
  where the instruction has none, already converted by \<open>asInt\<close>.  The result is the
  sliced value (\<open>Inr\<close>) or the panic (\<open>Inl\<close>).
\<close>

definition slice ::
  "operand \<Rightarrow> bool \<Rightarrow> int option \<Rightarrow> int option \<Rightarrow> int option \<Rightarrow> value + operand" where
  "slice v makesliceCheck Low High Max' =
     (let lo = (case Low of Some l \<Rightarrow> l | None \<Rightarrow> 0);
          hi = (case High of Some h \<Rightarrow> h | None \<Rightarrow> Len v);
          mx = (case Max' of Some m \<Rightarrow> m | None \<Rightarrow> Cap v);
          slice3 = (Max' \<noteq> None)
      in case slice_check (isSlice v) makesliceCheck slice3 lo hi mx (Cap v) of
           Some e \<Rightarrow> Inl e
         | None \<Rightarrow> slice_result v lo hi mx)"



section \<open>Properties of register assignment\<close>

lemma classify_index [simp]:
  "classify v s = (vk, vs, s1) \<Longrightarrow>
     istackIndex s1 = istackIndex s \<and> stackIndex s1 = stackIndex s \<and>
     istack s1 = istack s \<and> nstack s1 = nstack s"
  by (cases v) (auto simp: loadFunction_def split: if_splits)

lemma regIndex_bound_hit: "bound s v = Some r \<Longrightarrow> regIndex v s = (r, s)"
  by (auto simp: bound_def regIndex_def split: option.splits)

lemma regIndex_binds: "bound (snd (regIndex v s)) v = Some (fst (regIndex v s))"
proof (cases "bound s v")
  case (Some r)
  then show ?thesis by (simp add: regIndex_bound_hit)
next
  case None
  then have a: "istackIndex s v = None" and b: "stackIndex s v = None"
    by (auto simp: bound_def split: option.splits)
  obtain vk vs s1 where c: "classify v s = (vk, vs, s1)"
    by (cases "classify v s") auto
  from classify_index [OF c] a b show ?thesis
    by (auto simp: regIndex_def c bound_def Let_def)
qed

lemma regIndex_keeps_bound:
  assumes "bound s v = Some r"
  shows "bound (snd (regIndex w s)) v = Some r"
proof (cases "w = v")
  case True
  with assms show ?thesis by (simp add: regIndex_bound_hit)
next
  case False
  show ?thesis
  proof (cases "bound s w")
    case (Some r')
    then show ?thesis using assms by (simp add: regIndex_bound_hit)
  next
    case None
    then have a: "istackIndex s w = None" and b: "stackIndex s w = None"
      by (auto simp: bound_def split: option.splits)
    obtain vk vs s1 where c: "classify w s = (vk, vs, s1)"
      by (cases "classify w s") auto
    from classify_index [OF c] a b False assms show ?thesis
      by (auto simp: regIndex_def c bound_def Let_def split: option.splits)
  qed
qed

lemma regIndexes_keeps_bound:
  "bound s v = Some r \<Longrightarrow> bound (regIndexes ws s) v = Some r"
  by (induction ws arbitrary: s) (auto simp: regIndex_keeps_bound)

text \<open>
  C6 (register stability).  After the first call \<open>regIndex v\<close> in a state \<open>s\<close>, and after
  any further run \<open>ws\<close> of \<open>regIndex\<close> calls of the same compilation (for \<open>v\<close> itself or
  for other values), a call \<open>regIndex v\<close> returns the register of the first call and
  leaves the state as it is: no slot is allocated, neither in the interpreter-wide stack
  nor in the frame.
\<close>

theorem regIndex_stable:
  "regIndex v (regIndexes ws (snd (regIndex v s))) =
     (fst (regIndex v s), regIndexes ws (snd (regIndex v s)))"
  by (rule regIndex_bound_hit) (rule regIndexes_keeps_bound, rule regIndex_binds)

section \<open>Properties of recover, deferred calls and the runner\<close>

lemma recovered_cases:
  "(\<forall>v. p = targetPanic v \<longrightarrow> recovered p = Inr v) \<and>
   (((\<exists>e. p = RuntimeError e \<or> p = runtimeError e \<or> p = VString e \<or> p = plainError e
          \<or> p = ValueError e) \<or> (\<exists>f a. p = VSprintf f a)) \<longrightarrow> recovered p = Inr p) \<and>
   ((p = VNil \<or> (\<exists>n. p = exitPanic n)) \<longrightarrow>
       recovered p = Inl (VSprintf ''unexpected panic type %T in target call to recover()'' [p]))"
  by (cases p) auto

text \<open>
  C3 (recover scope), as amended.  For a non-nil \<open>caller\<close> (the head of the stack):
  when the \<open>DisableRecover\<close> bit of the mode is clear, \<open>caller.panicking\<close> is nil,
  \<open>caller.caller\<close> is not nil and \<open>caller.caller.panicking\<close> holds a panic value \<open>p\<close>,
  \<open>doRecover\<close> clears \<open>caller.caller.panicking\<close> and yields the payload of \<open>p\<close>: the
  value given to \<open>panic()\<close> for a \<open>targetPanic\<close> (nil for \<open>panic(nil)\<close>), \<open>p\<close> itself for
  a runtime error, a string, a \<open>plainError\<close> or a \<open>*reflect.ValueError\<close>, and a Go panic
  \<open>unexpected panic type\<close> for a nil or an \<open>exitPanic\<close> value.  In every other case it
  returns nil and leaves every frame of the stack as it is.
\<close>

theorem doRecover_amended:
  assumes "st \<noteq> []"
  shows "(m AND DisableRecover = 0 \<and> panicking (st ! 0) = None \<and> 1 < length st \<and>
            panicking (st ! 1) = Some p \<longrightarrow>
            doRecover m st = (recovered p, st[1 := (st ! 1)\<lparr>panicking := None\<rparr>]) \<and>
            (\<forall>v. p = targetPanic v \<longrightarrow> recovered p = Inr v) \<and>
            (((\<exists>e. p = RuntimeError e \<or> p = runtimeError e \<or> p = VString e \<or> p = plainError e
                 \<or> p = ValueError e) \<or> (\<exists>f a. p = VSprintf f a)) \<longrightarrow> recovered p = Inr p) \<and>
            ((p = VNil \<or> (\<exists>n. p = exitPanic n)) \<longrightarrow>
               recovered p =
                 Inl (VSprintf ''unexpected panic type %T in target call to recover()'' [p]))) \<and>
         (\<not> (m AND DisableRecover = 0 \<and> panicking (st ! 0) = None \<and> 1 < length st \<and>
              panicking (st ! 1) \<noteq> None) \<longrightarrow>
            doRecover m st = (Inr VNil, st))"
proof (cases st)
  case Nil
  with assms show ?thesis by simp
next
  case (Cons c st1)
  show ?thesis
  proof (cases st1)
    case Nil
    with Cons show ?thesis by simp
  next
    case (Cons cc rest)
    with \<open>st = c # st1\<close> have st: "st = c # cc # rest" by simp
    show ?thesis
      unfolding st using recovered_cases [of p] by auto
  qed
qed

text \<open>
  C3 as stated fails where the mode has \<open>DisableRecover\<close>: \<open>caller.panicking\<close> is nil and
  \<open>caller.caller.panicking\<close> is not, yet \<open>doRecover\<close> returns nil and consumes nothing.
\<close>

theorem doRecover_counterexample:
  "panicking \<lparr>panicking = None, defers = [], pc = 1\<rparr> = None \<and>
   panicking \<lparr>panicking = Some (targetPanic (VString ''boom'')), defers = [Deferred 7 []], pc = 4\<rparr> \<noteq> None \<and>
   doRecover DisableRecover
     [\<lparr>panicking = None, defers = [], pc = 1\<rparr>,
      \<lparr>panicking = Some (targetPanic (VString ''boom'')), defers = [Deferred 7 []], pc = 4\<rparr>] =
     (Inr VNil,
      [\<lparr>panicking = None, defers = [], pc = 1\<rparr>,
       \<lparr>panicking = Some (targetPanic (VString ''boom'')), defers = [Deferred 7 []], pc = 4\<rparr>])"
  by (simp add: DisableRecover_def)

theorem doRecover_amended_witness:
  "doRecover 0
     [\<lparr>panicking = None, defers = [], pc = 1\<rparr>,
      \<lparr>panicking = Some (targetPanic (VString ''boom'')), defers = [Deferred 7 []], pc = 4\<rparr>] =
     (Inr (VString ''boom''),
      [\<lparr>panicking = None, defers = [], pc = 1\<rparr>,
       \<lparr>panicking = None, defers = [Deferred 7 []], pc = 4\<rparr>]) \<and>
   doRecover 0
     [\<lparr>panicking = Some (VString ''inner''), defers = [], pc = 1\<rparr>,
      \<lparr>panicking = Some (targetPanic (VString ''boom'')), defers = [Deferred 7 []], pc = 4\<rparr>] =
     (Inr VNil,
      [\<lparr>panicking = Some (VString ''inner''), defers = [], pc = 1\<rparr>,
       \<lparr>panicking = Some (targetPanic (VString ''boom'')), defers = [Deferred 7 []], pc = 4\<rparr>])"
  using doRecover_amended [of "[\<lparr>panicking = None, defers = [], pc = 1\<rparr>,
      \<lparr>panicking = Some (targetPanic (VString ''boom'')), defers = [Deferred 7 []], pc = 4\<rparr>]"
      0 "targetPanic (VString ''boom'')"]
    doRecover_amended [of "[\<lparr>panicking = Some (VString ''inner''), defers = [], pc = 1\<rparr>,
      \<lparr>panicking = Some (targetPanic (VString ''boom'')), defers = [Deferred 7 []], pc = 4\<rparr>]"
      0 "targetPanic (VString ''boom'')"]
  by simp

lemma recover_callee_disabled:
  "m AND DisableRecover \<noteq> 0 \<Longrightarrow> recover_callee m f a pk = (pk, Returns ())"
  by (simp add: recover_callee_def)

lemma runDefers_loop_disabled:
  "m AND DisableRecover \<noteq> 0 \<Longrightarrow>
     runDefers_loop (recover_callee m) ds fr = (ds, Inr fr)"
  by (induction ds) (simp_all add: runDefer_def recover_callee_disabled)

text \<open>
  C10 (recover disabled).  With the \<open>DisableRecover\<close> bit set, \<open>doRecover\<close> returns nil
  for every frame and leaves the stack, with the panicking record of the caller's
  caller, as it is; so a panicking frame whose deferred functions all call \<open>recover()\<close>
  still ends \<open>runDefers\<close> by re-raising its panic, and a panic of the function run by
  \<open>RunFunc\<close> leaves \<open>RunFunc\<close> as a panic.
\<close>

theorem DisableRecover_propagates:
  assumes "m AND DisableRecover \<noteq> 0"
  shows "doRecover m (c # st) = (Inr VNil, c # st) \<and>
         (panicking fr = Some p \<longrightarrow>
            runDefers (recover_callee m) fr = (defers fr, Panics p)) \<and>
         (mainpkg name = Some f \<and> mode i = m \<and> call f argv i = Panics p \<longrightarrow>
            RunFunc mainpkg call i name argv = Panics p)"
proof (intro conjI impI)
  show "doRecover m (c # st) = (Inr VNil, c # st)"
    using assms by (cases st) simp_all
  show "runDefers (recover_callee m) fr = (defers fr, Panics p)" if "panicking fr = Some p"
    using that by (simp add: runDefers_def runDefers_loop_disabled [OF assms])
  show "RunFunc mainpkg call i name argv = Panics p"
    if "mainpkg name = Some f \<and> mode i = m \<and> call f argv i = Panics p"
    using that assms by (simp add: RunFunc_def)
qed

theorem DisableRecover_propagates_witness:
  "doRecover DisableRecover
     [\<lparr>panicking = None, defers = [], pc = 1\<rparr>,
      \<lparr>panicking = Some (targetPanic (VString ''boom'')), defers = [], pc = 4\<rparr>] =
     (Inr VNil,
      [\<lparr>panicking = None, defers = [], pc = 1\<rparr>,
       \<lparr>panicking = Some (targetPanic (VString ''boom'')), defers = [], pc = 4\<rparr>]) \<and>
   runDefers (recover_callee DisableRecover)
      \<lparr>panicking = Some (targetPanic (VString ''boom'')), defers = [Deferred 7 []], pc = 4\<rparr> =
     ([Deferred 7 []], Panics (targetPanic (VString ''boom''))) \<and>
   RunFunc [''f'' \<mapsto> ()] (\<lambda>f a i. Panics (targetPanic (VString ''boom'')))
      \<lparr>mode = DisableRecover, exited = False\<rparr> ''f'' [] = Panics (targetPanic (VString ''boom''))"
  using DisableRecover_propagates [of DisableRecover
      "\<lparr>panicking = None, defers = [], pc = 1\<rparr>"
      "[\<lparr>panicking = Some (targetPanic (VString ''boom'')), defers = [], pc = 4\<rparr>]"
      "\<lparr>panicking = Some (targetPanic (VString ''boom'')), defers = [Deferred 7 []], pc = 4\<rparr>"
      "targetPanic (VString ''boom'')" "[''f'' \<mapsto> ()]" "''f''" "()"
      "\<lparr>mode = DisableRecover, exited = False\<rparr>"
      "\<lambda>f a i. Panics (targetPanic (VString ''boom''))" "[]"]
  by (simp add: DisableRecover_def)






lemma Run_recover_carries:
  "p \<noteq> VNil \<Longrightarrow> \<forall>n. p \<noteq> exitPanic n \<Longrightarrow>
     \<exists>e. Run_recover p c None = (c, Some e) \<and>
         (e = Err p \<or> e = ErrPlain p \<or> e = Errorf ''unexpected type: %T: %v'' [p, p])"
  by (cases p) auto

text \<open>
  C1 (exit codes), as amended.  \<open>Run\<close> returns exit code 1 and an error when the entry
  function does not exist, and exit code 0 when it exists and its call returns.  When
  the \<open>DisableRecover\<close> bit is clear, a call of \<open>os.Exit(n)\<close> makes it return exit code
  \<open>n\<close> with no error, and a panic with any other non-nil value makes it return exit
  code 2 with an error carrying the panic value.  When the bit is set, a panic leaves
  \<open>Run\<close> as a panic.
\<close>

theorem Run_exit_codes:
  "(mainpkg entry = None \<longrightarrow>
      fst (Run mainpkg call i entry) =
        Returns (1, Some (Errorf ''no function %v'' [VString entry]))) \<and>
   (mainpkg entry = Some f \<and> call f [] (i\<lparr>exited := False\<rparr>) = Returns r \<longrightarrow>
      fst (Run mainpkg call i entry) = Returns (0, None)) \<and>
   (mode i AND DisableRecover = 0 \<and> mainpkg entry = Some f \<and>
    call f [] (i\<lparr>exited := False\<rparr>) = os_Exit (i\<lparr>exited := False\<rparr>) n \<longrightarrow>
      fst (Run mainpkg call i entry) = Returns (n, None)) \<and>
   (mode i AND DisableRecover = 0 \<and> mainpkg entry = Some f \<and>
    call f [] (i\<lparr>exited := False\<rparr>) = Panics p \<and> p \<noteq> VNil \<and> (\<forall>k. p \<noteq> exitPanic k) \<longrightarrow>
      (\<exists>e. fst (Run mainpkg call i entry) = Returns (2, Some e) \<and>
           (e = Err p \<or> e = ErrPlain p \<or> e = Errorf ''unexpected type: %T: %v'' [p, p]))) \<and>
   (mode i AND DisableRecover \<noteq> 0 \<and> mainpkg entry = Some f \<and>
    call f [] (i\<lparr>exited := False\<rparr>) = Panics p \<longrightarrow>
      fst (Run mainpkg call i entry) = Panics p)"
proof (intro conjI impI)
  show "fst (Run mainpkg call i entry) =
          Returns (1, Some (Errorf ''no function %v'' [VString entry]))"
    if "mainpkg entry = None"
    using that by (simp add: Run_def Let_def)
  show "fst (Run mainpkg call i entry) = Returns (0, None)"
    if "mainpkg entry = Some f \<and> call f [] (i\<lparr>exited := False\<rparr>) = Returns r"
    using that by (simp add: Run_def Let_def)
  show "fst (Run mainpkg call i entry) = Returns (n, None)"
    if "mode i AND DisableRecover = 0 \<and> mainpkg entry = Some f \<and>
        call f [] (i\<lparr>exited := False\<rparr>) = os_Exit (i\<lparr>exited := False\<rparr>) n"
    using that by (simp add: Run_def Let_def os_Exit_def)
  show "\<exists>e. fst (Run mainpkg call i entry) = Returns (2, Some e) \<and>
           (e = Err p \<or> e = ErrPlain p \<or> e = Errorf ''unexpected type: %T: %v'' [p, p])"
    if h: "mode i AND DisableRecover = 0 \<and> mainpkg entry = Some f \<and>
        call f [] (i\<lparr>exited := False\<rparr>) = Panics p \<and> p \<noteq> VNil \<and> (\<forall>k. p \<noteq> exitPanic k)"
  proof -
    from h Run_recover_carries [of p 2] obtain e where
      e: "Run_recover p 2 None = (2, Some e)"
         "e = Err p \<or> e = ErrPlain p \<or> e = Errorf ''unexpected type: %T: %v'' [p, p]"
      by blast
    from h have "fst (Run mainpkg call i entry) = Returns (Run_recover p 2 None)"
      by (simp add: Run_def Let_def)
    with e show ?thesis by simp
  qed
  show "fst (Run mainpkg call i entry) = Panics p"
    if "mode i AND DisableRecover \<noteq> 0 \<and> mainpkg entry = Some f \<and>
        call f [] (i\<lparr>exited := False\<rparr>) = Panics p"
    using that by (simp add: Run_def Let_def)
qed

theorem Run_exit_codes_witness:
  "fst (Run main_only (calls_os_Exit (- 2)) \<lparr>mode = 0, exited = False\<rparr> ''main'')
     = Returns (- 2, None) \<and>
   fst (Run main_only (calls_os_Exit (- 2)) \<lparr>mode = 0, exited = False\<rparr> ''test'')
     = Returns (1, Some (Errorf ''no function %v'' [VString ''test'']))"
  using Run_exit_codes [where mainpkg = main_only and entry = "''main''"
      and call = "calls_os_Exit (- 2)" and i = "\<lparr>mode = 0, exited = False\<rparr>" and f = "()"
      and n = "- 2"]
    Run_exit_codes [where mainpkg = main_only and entry = "''test''"
      and call = "calls_os_Exit (- 2)" and i = "\<lparr>mode = 0, exited = False\<rparr>"]
  by (simp add: main_only_def calls_os_Exit_def)

text \<open>
  C1 as stated fails where the mode has \<open>DisableRecover\<close>: the program calls
  \<open>os.Exit(3)\<close> and \<open>Run\<close> does not return exit code 3; the \<open>exitPanic\<close> goes on to the
  caller of \<open>Run\<close>.
\<close>

theorem Run_DisableRecover_counterexample:
  "fst (Run main_only (calls_os_Exit 3) \<lparr>mode = DisableRecover, exited = False\<rparr> ''main'')
     = Panics (exitPanic 3)"
  by (simp add: Run_def os_Exit_def DisableRecover_def main_only_def calls_os_Exit_def)

section \<open>Properties of the comparison with nil\<close>

lemma IsNil_iff:
  "IsNil v \<longleftrightarrow> rkind v = Invalid \<or>
     (rkind v \<in> {Slice, Map, Func, Chan, Ptr, UnsafePointer, Interface} \<and> rnil v)"
  by (cases "rkind v") (simp_all add: IsNil_def)

text \<open>
  C5 (nil comparison), as amended.  Where one operand of \<open>==\<close> is a nil constant, the
  result is true if and only if the two reflected values have the same kind and the
  other operand is nil by \<open>IsNil\<close>: its kind is \<open>Invalid\<close> (the nil interface value), or
  it is a slice, map, func, chan, pointer, unsafe pointer or interface whose \<open>IsNil()\<close>
  holds.
\<close>

theorem opEQL_nil:
  "(IsConstNil (Y instr) \<and> \<not> IsConstNil (X instr) \<longrightarrow>
      opEQL equalValue instr vx vy = (rkind vx = rkind vy \<and> IsNil vx)) \<and>
   (IsConstNil (X instr) \<longrightarrow>
      opEQL equalValue instr vx vy = (rkind vx = rkind vy \<and> IsNil vy)) \<and>
   (IsNil vx \<longleftrightarrow> rkind vx = Invalid \<or>
      (rkind vx \<in> {Slice, Map, Func, Chan, Ptr, UnsafePointer, Interface} \<and> rnil vx))"
  using IsNil_iff [of vx] by (auto simp: opEQL_def)

theorem opEQL_nil_witness:
  "opEQL same_data \<lparr>X = SLocal 1, Y = SConst 0 True\<rparr> (RValue Ptr True 0) (RValue Ptr True 0)
     = True \<and>
   opEQL same_data \<lparr>X = SConst 0 True, Y = SLocal 1\<rparr> (RValue Invalid True 0)
      (RValue Invalid True 0) = True \<and>
   opEQL same_data \<lparr>X = SLocal 1, Y = SConst 0 True\<rparr> (RValue Slice False 5)
      (RValue Slice True 0) = False"
  using opEQL_nil [where instr = "\<lparr>X = SLocal 1, Y = SConst 0 True\<rparr>" and equalValue = same_data
      and vx = "RValue Ptr True 0" and vy = "RValue Ptr True 0"]
    opEQL_nil [where instr = "\<lparr>X = SConst 0 True, Y = SLocal 1\<rparr>" and equalValue = same_data
      and vx = "RValue Invalid True 0" and vy = "RValue Invalid True 0"]
    opEQL_nil [where instr = "\<lparr>X = SLocal 1, Y = SConst 0 True\<rparr>" and equalValue = same_data
      and vx = "RValue Slice False 5" and vy = "RValue Slice True 0"]
  by simp

text \<open>
  C5 as stated fails for a typed nil in an interface: \<open>var p *T; var e interface{} = p;
  e == nil\<close>.  The constant \<open>nil\<close> of interface type is the Go nil, reflected with kind
  \<open>Invalid\<close>; the other operand is reflected as a nil pointer, which is nil by \<open>IsNil\<close>;
  the kinds differ and \<open>opEQL\<close> answers false.
\<close>

theorem opEQL_typed_nil_counterexample:
  "IsConstNil (Y \<lparr>X = SLocal 1, Y = SConst 0 True\<rparr>) \<and>
   IsNil (RValue Ptr True (0::nat)) \<and>
   opEQL same_data \<lparr>X = SLocal 1, Y = SConst 0 True\<rparr>
      (RValue Ptr True 0) (RValue Invalid True 0) = False"
  by (simp add: opEQL_def IsNil_def)

section \<open>Properties of shifts\<close>

lemma uint_nonneg_sint: "0 \<le> sint (a :: 64 word) \<Longrightarrow> uint a = sint a"
proof -
  assume h: "0 \<le> sint a"
  have "sint a < 2 ^ 63" using sint_lt [of a] by simp
  then have "sint a < 2 ^ 64" by simp
  with h have "take_bit 64 (sint a) = sint a" by (simp add: take_bit_int_eq_self)
  then show ?thesis using uint_sint [of a] by simp
qed

lemma sint_scast8: "sint (scast (a :: 8 word) :: 64 word) = sint a"
  by (rule sint_up_scast) (simp add: is_up)

lemma sint_scast16: "sint (scast (a :: 16 word) :: 64 word) = sint a"
  by (rule sint_up_scast) (simp add: is_up)

lemma sint_scast32: "sint (scast (a :: 32 word) :: 64 word) = sint a"
  by (rule sint_up_scast) (simp add: is_up)

lemma uint_ucast8: "uint (ucast (a :: 8 word) :: 64 word) = uint a"
  by (rule uint_up_ucast) (simp add: is_up)

lemma uint_ucast16: "uint (ucast (a :: 16 word) :: 64 word) = uint a"
  by (rule uint_up_ucast) (simp add: is_up)

lemma uint_ucast32: "uint (ucast (a :: 32 word) :: 64 word) = uint a"
  by (rule uint_up_ucast) (simp add: is_up)

lemma asUint64_signed:
  assumes "signed_value y = Some k"
  shows "(k < 0 \<longrightarrow> asUint64 y = Inl negative_shift) \<and>
         (0 \<le> k \<longrightarrow> (\<exists>w. asUint64 y = Inr w \<and> uint w = k))"
  using assms
  by (elim signed_value.elims)
    (auto simp: uint_nonneg_sint sint_scast8 sint_scast16 sint_scast32)

lemma asUint64_unsigned:
  assumes "unsigned_value y = Some k"
  shows "\<exists>w. asUint64 y = Inr w \<and> uint w = k"
  using assms
  by (elim unsigned_value.elims) (auto simp: uint_ucast8 uint_ucast16 uint_ucast32)

text \<open>
  C7 (shift counts).  \<open>opSHL\<close> and \<open>opSHR\<close> convert the count with \<open>asUint64\<close> before
  they look at the shifted operand.  A count of a signed integer type with a negative
  value makes \<open>asUint64\<close>, and with it the shift, panic with the runtime error
  \<open>negative shift amount\<close>; a non-negative signed count and an unsigned count are
  widened to the \<open>uint64\<close> of the same numeric value.
\<close>

theorem shift_count:
  "(signed_value y = Some k \<and> k < 0 \<longrightarrow>
      asUint64 y = Inl (runtimeError ''negative shift amount'') \<and>
      opSHL x y = Inl (runtimeError ''negative shift amount'') \<and>
      opSHR x y = Inl (runtimeError ''negative shift amount'')) \<and>
   (signed_value y = Some k \<and> 0 \<le> k \<longrightarrow> (\<exists>w. asUint64 y = Inr w \<and> uint w = k)) \<and>
   (unsigned_value y = Some k \<longrightarrow> (\<exists>w. asUint64 y = Inr w \<and> uint w = k))"
  using asUint64_signed [of y k] asUint64_unsigned [of y k]
  by (auto simp: opSHL_def opSHR_def negative_shift_def)

theorem shift_count_witness:
  "opSHL (VInt 1) (VInt8 (- 1)) = Inl (runtimeError ''negative shift amount'') \<and>
   opSHR (VUint32 8) (VNamed ''main.N'' (VInt (- 3))) = Inl (runtimeError ''negative shift amount'') \<and>
   asUint64 (VInt16 3) = Inr 3 \<and> asUint64 (VUint8 200) = Inr 200"
  using shift_count [of "VInt8 (- 1)" "- 1" "VInt 1"]
    shift_count [of "VNamed ''main.N'' (VInt (- 3))" "- 3" "VUint32 8"]
    shift_count [of "VInt16 3" 3 VNil] shift_count [of "VUint8 200" 200 VNil]
  by (simp add: negative_shift_def)

section \<open>Properties of map lookup\<close>





section \<open>Properties of select\<close>

lemma Select_results_eq:
  "Select_results chosen recvOk recv n sts r =
     r @ map (\<lambda>(i, st). if int i = chosen \<and> recvOk then recv else zero_value (StElem st))
           (filter (\<lambda>(i, st). StDir st = RecvOnly) (zip [n ..< n + length sts] sts))"
proof (induction sts arbitrary: n r)
  case Nil
  show ?case by simp
next
  case (Cons st sts)
  have z: "zip [n ..< n + length (st # sts)] (st # sts) =
             (n, st) # zip [Suc n ..< Suc n + length sts] sts"
    by (simp add: upt_conv_Cons del: upt_Suc)
  show ?case
    unfolding z by (simp add: Cons.IH)
qed

text \<open>
  C9 (select).  Where \<open>reflect.Select\<close> answers \<open>(c, recv, recvOk)\<close>: a non-blocking
  select passes the default case first and reports \<open>c - 1\<close>, so \<open>-1\<close> for the default
  case; a blocking one reports \<open>c\<close>.  The tuple stored is the index reported, \<open>recvOk\<close>,
  and one value for every receive state in the order of the states: the value received
  for the state chosen when \<open>recvOk\<close> holds, the zero value of the channel's element type
  for every other one.
\<close>

theorem Select_tuple:
  assumes "native (Select_cases Blocking States) = Some (c, recv, recvOk)"
  shows "(\<not> Blocking \<longrightarrow>
            Select_cases Blocking States =
              SelectCase SelectDefault None None # map state_case States \<and>
            Select native Blocking States =
              Some (tuple (VInt (word_of_int (c - 1)) # VBool recvOk #
                map (\<lambda>(i, st). if int i = c - 1 \<and> recvOk then recv else zero_value (StElem st))
                  (filter (\<lambda>(i, st). StDir st = RecvOnly) (zip [0 ..< length States] States))))) \<and>
         (Blocking \<longrightarrow>
            Select_cases Blocking States = map state_case States \<and>
            Select native Blocking States =
              Some (tuple (VInt (word_of_int c) # VBool recvOk #
                map (\<lambda>(i, st). if int i = c \<and> recvOk then recv else zero_value (StElem st))
                  (filter (\<lambda>(i, st). StDir st = RecvOnly) (zip [0 ..< length States] States)))))"
proof (cases Blocking)
  case True
  with assms have "native (map state_case States) = Some (c, recv, recvOk)"
    by (simp add: Select_cases_def)
  with True show ?thesis
    by (simp add: Select_def Select_cases_def Select_results_eq)
next
  case False
  with assms have
    "native (SelectCase SelectDefault None None # map state_case States) = Some (c, recv, recvOk)"
    by (simp add: Select_cases_def)
  with False show ?thesis
    by (simp add: Select_def Select_cases_def Select_results_eq)
qed

theorem Select_tuple_witness:
  "Select (\<lambda>cs. Some (0, VNil, False)) False
      [\<lparr>StDir = RecvOnly, StChan = VRef Chan (Some 1), StElem = TInt, StSend = None\<rparr>,
       \<lparr>StDir = SendOnly, StChan = VRef Chan (Some 2), StElem = TString, StSend = Some (VString ''x'')\<rparr>]
     = Some (tuple [VInt (- 1), VBool False, VInt 0]) \<and>
   Select (\<lambda>cs. Some (1, VString ''m'', True)) True
      [\<lparr>StDir = RecvOnly, StChan = VRef Chan (Some 1), StElem = TInt, StSend = None\<rparr>,
       \<lparr>StDir = RecvOnly, StChan = VRef Chan (Some 2), StElem = TString, StSend = None\<rparr>]
     = Some (tuple [VInt 1, VBool True, VInt 0, VString ''m''])"
  using Select_tuple [of "\<lambda>cs. Some (0, VNil, False)" False
      "[\<lparr>StDir = RecvOnly, StChan = VRef Chan (Some 1), StElem = TInt, StSend = None\<rparr>,
        \<lparr>StDir = SendOnly, StChan = VRef Chan (Some 2), StElem = TString, StSend = Some (VString ''x'')\<rparr>]"
      0 VNil False]
    Select_tuple [of "\<lambda>cs. Some (1, VString ''m'', True)" True
      "[\<lparr>StDir = RecvOnly, StChan = VRef Chan (Some 1), StElem = TInt, StSend = None\<rparr>,
        \<lparr>StDir = RecvOnly, StChan = VRef Chan (Some 2), StElem = TString, StSend = None\<rparr>]"
      1 "VString ''m''" True]
  by (simp add: upt_rec)

section \<open>Properties of slicing\<close>





















end
